theory Spec2Isabelle
  imports Complex_Main
begin

section \<open>Data model\<close>

text \<open>
  The program is a Cloudflare Worker (\<^verbatim>\<open>src/index.js\<close>) in front of one Durable Object
  class, \<^verbatim>\<open>SessionManager\<close>, with one instance per user name. JavaScript is untyped; the
  embedding fixes the types the program's own data flow gives its values: the fields of a
  chat request body are strings when present (\<open>None\<close> is JavaScript's \<^verbatim>\<open>undefined\<close>), an
  interaction record holds the two strings the worker sends to \<^verbatim>\<open>/add\<close>, and the storage
  of one Durable Object holds either nothing or an array of such records under its single
  key \<^verbatim>\<open>'history'\<close>. The storage layer itself is taken to be reliable: \<^verbatim>\<open>get\<close>, \<^verbatim>\<open>put\<close>
  and \<^verbatim>\<open>delete\<close> do what their names say.
\<close>

record interaction =
  timestamp :: int
  userMessage :: string
  aiResponse :: string

type_synonym history = "interaction list"

text \<open>The value under the key \<^verbatim>\<open>'history'\<close> of one object's storage; \<open>None\<close> when absent.\<close>

type_synonym storage = "history option"

text \<open>
  A thrown JavaScript \<^verbatim>\<open>Error\<close>, with its \<^verbatim>\<open>message\<close>. The wording of the messages of
  errors thrown by the runtime is the runtime's own; no statement below depends on it.
\<close>

datatype error = Error string

text \<open>
  The bodies this program puts into a \<^verbatim>\<open>Response\<close>: nothing, a plain text, the frontend
  page, or the JSON serialisation of one of its four shapes of value.
\<close>

datatype body =
    NoBody
  | Text string
  | Html string
  | JsonError string
  | JsonChat string string
  | JsonHistory history
  | JsonSuccess bool

record response =
  status :: nat
  headers :: "(string \<times> string) list"
  body :: body

text \<open>\<^verbatim>\<open>new Response(b)\<close> and \<^verbatim>\<open>new Response(b, {headers: h})\<close> have status 200.\<close>

definition Response :: "body \<Rightarrow> (string \<times> string) list \<Rightarrow> response" where
  "Response b h = \<lparr>status = 200, headers = h, body = b\<rparr>"

definition ResponseStatus :: "body \<Rightarrow> nat \<Rightarrow> (string \<times> string) list \<Rightarrow> response" where
  "ResponseStatus b s h = \<lparr>status = s, headers = h, body = b\<rparr>"

section \<open>The Durable Object: SessionManager\<close>

text \<open>
  A request to the object: the path of its URL and what \<^verbatim>\<open>request.json()\<close> gives, which
  is either a thrown error (no body, or a body that is not JSON) or the two fields
  \<^verbatim>\<open>message\<close> and \<^verbatim>\<open>response\<close> that \<^verbatim>\<open>addInteraction\<close> destructures.
\<close>

record do_request =
  do_pathname :: string
  do_json :: "error + (string \<times> string)"

text \<open>\<^verbatim>\<open>this.state.storage.get('history') || []\<close>: an array, even an empty one, is truthy.\<close>

definition get_history_or_empty :: "storage \<Rightarrow> history" where
  "get_history_or_empty st = (case st of None \<Rightarrow> [] | Some h \<Rightarrow> h)"

text \<open>
  \<^verbatim>\<open>addInteraction\<close>: \<open>now\<close> is the value of \<^verbatim>\<open>Date.now()\<close>. The record is pushed, then
  \<^emph>\<open>one\<close> \<^verbatim>\<open>shift()\<close> removes the first element if the length exceeds 20, then the array is
  stored. A failing \<^verbatim>\<open>request.json()\<close> throws before the storage is touched.
\<close>

definition addInteraction :: "do_request \<Rightarrow> int \<Rightarrow> storage \<Rightarrow> (error + response) \<times> storage" where
  "addInteraction request now st =
     (case do_json request of
        Inl e \<Rightarrow> (Inl e, st)
      | Inr (message, response) \<Rightarrow>
          (let history = get_history_or_empty st;
               history = history @ [\<lparr>timestamp = now, userMessage = message, aiResponse = response\<rparr>];
               history = (if length history > 20 then tl history else history)
           in (Inr (Response (Text ''OK'') []), Some history)))"

definition getHistory :: "storage \<Rightarrow> (error + response) \<times> storage" where
  "getHistory st =
     (let history = get_history_or_empty st
      in (Inr (Response (JsonHistory history) [(''Content-Type'', ''application/json'')]), st))"

definition clearHistory :: "storage \<Rightarrow> (error + response) \<times> storage" where
  "clearHistory st = (Inr (Response (Text ''History cleared'') []), None)"

definition SessionManager_fetch :: "do_request \<Rightarrow> int \<Rightarrow> storage \<Rightarrow> (error + response) \<times> storage" where
  "SessionManager_fetch request now st =
     (if do_pathname request = ''/add'' then addInteraction request now st
      else if do_pathname request = ''/history'' then getHistory st
      else if do_pathname request = ''/clear'' then clearHistory st
      else (Inr (ResponseStatus (Text ''Not found'') 404 []), st))"

section \<open>The Worker\<close>

subsection \<open>Reaching a session object\<close>

text \<open>
  \<^verbatim>\<open>env.SESSION_MANAGER.idFromName(userId)\<close> followed by \<^verbatim>\<open>get\<close> names one object per
  user name, so the namespace is a function from names to storages. \<open>fetches\<close> records,
  in order, every \<^verbatim>\<open>session.fetch\<close> the worker has issued (the object's name and the path):
  it is what tells a read of an object from no interaction at all.
\<close>

record world =
  objects :: "string \<Rightarrow> storage"
  fetches :: "(string \<times> string) list"

definition session_fetch :: "string \<Rightarrow> do_request \<Rightarrow> int \<Rightarrow> world \<Rightarrow> (error + response) \<times> world" where
  "session_fetch name request now w =
     (case SessionManager_fetch request now (objects w name) of
        (r, st) \<Rightarrow>
          (r, \<lparr>objects = (objects w)(name := st),
               fetches = fetches w @ [(name, do_pathname request)]\<rparr>))"

text \<open>A \<^verbatim>\<open>new Request(url)\<close> without a body: its \<^verbatim>\<open>json()\<close> throws.\<close>

definition Request :: "string \<Rightarrow> do_request" where
  "Request path = \<lparr>do_pathname = path, do_json = Inl (Error ''Unexpected end of JSON input'')\<rparr>"

text \<open>
  \<^verbatim>\<open>new Request(url, {method: 'POST', body: JSON.stringify({message, response})})\<close>:
  its \<^verbatim>\<open>json()\<close> gives the two strings back.
\<close>

definition RequestJson :: "string \<Rightarrow> string \<Rightarrow> string \<Rightarrow> do_request" where
  "RequestJson path message response = \<lparr>do_pathname = path, do_json = Inr (message, response)\<rparr>"

text \<open>
  \<^verbatim>\<open>await historyResponse.json()\<close>, read as a history: the object's \<^verbatim>\<open>/history\<close> answer
  parses to the array it serialised. Any other body of this program is either not JSON
  (\<^verbatim>\<open>json()\<close> throws) or not an array (the following \<^verbatim>\<open>.slice\<close> throws); both are
  the error branch.
\<close>

definition response_json :: "response \<Rightarrow> error + history" where
  "response_json r =
     (case body r of
        JsonHistory h \<Rightarrow> Inr h
      | _ \<Rightarrow> Inl (Error ''Unexpected token in JSON''))"

subsection \<open>Requests, truthiness, slices\<close>

record chat_body =
  userId :: "string option"
  message :: "string option"

text \<open>
  What the worker reads of a request: its method, the path of its URL,
  \<^verbatim>\<open>url.searchParams.get('userId')\<close> (\<open>None\<close> is \<^verbatim>\<open>null\<close>) and what
  \<^verbatim>\<open>const { userId, message } = await request.json()\<close> gives: a thrown error (the body
  is not JSON, or it is the JSON \<^verbatim>\<open>null\<close>, which cannot be destructured), or the two
  properties, each of them absent or a string.
\<close>

record request =
  req_method :: string
  pathname :: string
  searchParams_userId :: "string option"
  json :: "error + chat_body"

text \<open>\<^verbatim>\<open>!v\<close> for a value that is a string, \<^verbatim>\<open>undefined\<close> or \<^verbatim>\<open>null\<close>.\<close>

definition falsy :: "string option \<Rightarrow> bool" where
  "falsy v = (case v of None \<Rightarrow> True | Some s \<Rightarrow> s = [])"

definition string_value :: "string option \<Rightarrow> string" where
  "string_value v = (case v of None \<Rightarrow> [] | Some s \<Rightarrow> s)"

text \<open>\<^verbatim>\<open>Array.prototype.slice(start)\<close> with one argument.\<close>

definition slice :: "int \<Rightarrow> 'a list \<Rightarrow> 'a list" where
  "slice start xs =
     (let len = int (length xs);
          k = (if start < 0 then max (len + start) 0 else min start len)
      in drop (nat k) xs)"

definition corsHeaders :: "(string \<times> string) list" where
  "corsHeaders =
     [(''Access-Control-Allow-Origin'', ''*''),
      (''Access-Control-Allow-Methods'', ''GET, POST, OPTIONS''),
      (''Access-Control-Allow-Headers'', ''Content-Type'')]"

definition jsonHeaders :: "(string \<times> string) list" where
  "jsonHeaders = (''Content-Type'', ''application/json'') # corsHeaders"

subsection \<open>The prompt builder\<close>

record exchange =
  user :: string
  assistant :: string

text \<open>
  \<^verbatim>\<open>buildPrompt\<close> grows one string with \<^verbatim>\<open>+=\<close>; the \<^verbatim>\<open>forEach\<close> is a left fold. Its
  second argument is always an array here (the result of \<^verbatim>\<open>map\<close>), so the guard
  \<^verbatim>\<open>history && history.length > 0\<close> is the test on the length.
\<close>

definition buildPrompt :: "string \<Rightarrow> exchange list \<Rightarrow> string" where
  "buildPrompt msg history =
     (let prompt = ''You are an AI study assistant specializing in programming and computer science education.\<newline>You help students understand complex concepts through clear explanations and examples and you can use technical terminology appropriately.\<newline>'';
          prompt =
            (if length history > 0 then
               (let prompt = prompt @ ''Previous conversation context:\<newline>'';
                    prompt = foldl (\<lambda>prompt h. prompt @ ''Student: '' @ user h @ ''\<newline>Assistant: '' @ assistant h @ ''\<newline>'') prompt history
                in prompt @ ''\<newline>'')
             else prompt)
      in prompt @ ''Current question: '' @ msg @ ''\<newline>\<newline>Provide a helpful, educational response:'')"

subsection \<open>The inference collaborator\<close>

text \<open>
  \<^verbatim>\<open>env.AI.run(model, options)\<close> is outside the program: for one call it is a function of
  its arguments that either throws or resolves to an object whose \<^verbatim>\<open>response\<close> property is
  a string or is absent.
\<close>

record ai_input =
  model :: string
  prompt :: string
  max_tokens :: nat
  temperature :: rat

datatype ai_output = Rejects error | Resolves "string option"

subsection \<open>The handlers\<close>

text \<open>
  Two fragments of \<^verbatim>\<open>handleChatRequest\<close> are named so that they can be spoken about:
  the constant \<^verbatim>\<open>recentHistory\<close> (\<^verbatim>\<open>history.slice(-5).map(...)\<close>), and the
  \<^verbatim>\<open>try\<close>/\<^verbatim>\<open>catch\<close> block that assigns \<^verbatim>\<open>aiResponse\<close>.
\<close>

definition recentHistory :: "history \<Rightarrow> exchange list" where
  "recentHistory history =
     map (\<lambda>h. \<lparr>user = userMessage h, assistant = aiResponse h\<rparr>) (slice (- 5) history)"

definition generateAIResponse :: "(ai_input \<Rightarrow> ai_output) \<Rightarrow> string \<Rightarrow> exchange list \<Rightarrow> string" where
  "generateAIResponse ai msg recent =
     (case ai \<lparr>model = ''@cf/meta/llama-3.2-3b-instruct'',
               prompt = buildPrompt msg recent,
               max_tokens = 2048,
               temperature = 7 / 10\<rparr> of
        Rejects e \<Rightarrow> ''I encountered an error while processing your request. Please try again.''
      | Resolves r \<Rightarrow>
          if falsy r then ''I apologize, but I could not generate a response. Please try again.''
          else string_value r)"

definition handleChatRequest ::
  "(ai_input \<Rightarrow> ai_output) \<Rightarrow> request \<Rightarrow> int \<Rightarrow> world \<Rightarrow> (error + response) \<times> world" where
  "handleChatRequest ai request now w =
     (if req_method request \<noteq> ''POST'' then
        (Inr (ResponseStatus (Text ''Method not allowed'') 405 corsHeaders), w)
      else case json request of
        Inl e \<Rightarrow> (Inl e, w)
      | Inr b \<Rightarrow>
          if falsy (userId b) \<or> falsy (message b) then
            (Inr (ResponseStatus (JsonError ''Missing userId or message'') 400 jsonHeaders), w)
          else
            (let uid = string_value (userId b);
                 msg = string_value (message b)
             in case session_fetch uid (Request ''/history'') now w of
               (Inl e, w1) \<Rightarrow> (Inl e, w1)
             | (Inr historyResponse, w1) \<Rightarrow>
                 (case response_json historyResponse of
                    Inl e \<Rightarrow> (Inl e, w1)
                  | Inr history \<Rightarrow>
                      (let reply = generateAIResponse ai msg (recentHistory history)
                       in case session_fetch uid (RequestJson ''/add'' msg reply) now w1 of
                         (Inl e, w2) \<Rightarrow> (Inl e, w2)
                       | (Inr _, w2) \<Rightarrow> (Inr (Response (JsonChat reply uid) jsonHeaders), w2)))))"

definition handleSessionRequest :: "request \<Rightarrow> int \<Rightarrow> world \<Rightarrow> (error + response) \<times> world" where
  "handleSessionRequest request now w =
     (if falsy (searchParams_userId request) then
        (Inr (ResponseStatus (JsonError ''Missing userId'') 400 jsonHeaders), w)
      else
        (let uid = string_value (searchParams_userId request)
         in case session_fetch uid (Request ''/history'') now w of
           (Inl e, w1) \<Rightarrow> (Inl e, w1)
         | (Inr r, w1) \<Rightarrow>
             (case response_json r of
                Inl e \<Rightarrow> (Inl e, w1)
              | Inr history \<Rightarrow> (Inr (Response (JsonHistory history) jsonHeaders), w1))))"

definition handleClearSessionRequest :: "request \<Rightarrow> int \<Rightarrow> world \<Rightarrow> (error + response) \<times> world" where
  "handleClearSessionRequest request now w =
     (if req_method request \<noteq> ''POST'' then
        (Inr (ResponseStatus (Text ''Method not allowed'') 405 corsHeaders), w)
      else if falsy (searchParams_userId request) then
        (Inr (ResponseStatus (JsonError ''Missing userId'') 400 jsonHeaders), w)
      else
        (let uid = string_value (searchParams_userId request)
         in case session_fetch uid (Request ''/clear'') now w of
           (Inl e, w1) \<Rightarrow> (Inl e, w1)
         | (Inr _, w1) \<Rightarrow> (Inr (Response (JsonSuccess True) jsonHeaders), w1)))"

definition handleVoiceRequest :: "request \<Rightarrow> world \<Rightarrow> (error + response) \<times> world" where
  "handleVoiceRequest request w =
     (Inr (ResponseStatus (JsonError ''Voice transcription not yet implemented'') 501 jsonHeaders), w)"

text \<open>
  The worker's \<^verbatim>\<open>fetch\<close>. \<open>html\<close> is the constant string \<^verbatim>\<open>getHTMLContent()\<close> returns (the
  frontend page). An error thrown by a handler is caught and answered with status 500.
\<close>

definition fetch ::
  "string \<Rightarrow> (ai_input \<Rightarrow> ai_output) \<Rightarrow> request \<Rightarrow> int \<Rightarrow> world \<Rightarrow> response \<times> world" where
  "fetch html ai request now w =
     (if req_method request = ''OPTIONS'' then (Response NoBody corsHeaders, w)
      else case
        (if pathname request = ''/api/chat'' then handleChatRequest ai request now w
         else if pathname request = ''/api/session'' then handleSessionRequest request now w
         else if pathname request = ''/api/session/clear'' then handleClearSessionRequest request now w
         else if pathname request = ''/api/voice'' then handleVoiceRequest request w
         else (Inr (Response (Html html) ((''Content-Type'', ''text/html'') # corsHeaders)), w))
      of
        (Inl (Error m), w') \<Rightarrow> (ResponseStatus (JsonError m) 500 jsonHeaders, w')
      | (Inr r, w') \<Rightarrow> (r, w'))"

subsection \<open>An inference call that never settles\<close>

text \<open>
  \<^verbatim>\<open>handleChatRequest\<close> awaits \<^verbatim>\<open>env.AI.run\<close> with no timer, no abort signal and no
  race against a deadline. Above, the collaborator always settles. Here it may also stay
  pending for ever: the outcome of a call is \<open>None\<close> then, the \<^verbatim>\<open>await\<close> never resumes,
  and the handler's own promise stays pending as well (\<open>None\<close> in place of a response),
  with the world as it stands at the \<^verbatim>\<open>await\<close>. The rest is the same source text.
\<close>

definition generateAIResponse_async ::
  "(ai_input \<Rightarrow> ai_output option) \<Rightarrow> string \<Rightarrow> exchange list \<Rightarrow> string option" where
  "generateAIResponse_async ai msg recent =
     (case ai \<lparr>model = ''@cf/meta/llama-3.2-3b-instruct'',
               prompt = buildPrompt msg recent,
               max_tokens = 2048,
               temperature = 7 / 10\<rparr> of
        None \<Rightarrow> None
      | Some (Rejects e) \<Rightarrow>
          Some ''I encountered an error while processing your request. Please try again.''
      | Some (Resolves r) \<Rightarrow>
          Some (if falsy r then ''I apologize, but I could not generate a response. Please try again.''
                else string_value r))"

definition handleChatRequest_async ::
  "(ai_input \<Rightarrow> ai_output option) \<Rightarrow> request \<Rightarrow> int \<Rightarrow> world
     \<Rightarrow> (error + response) option \<times> world" where
  "handleChatRequest_async ai request now w =
     (if req_method request \<noteq> ''POST'' then
        (Some (Inr (ResponseStatus (Text ''Method not allowed'') 405 corsHeaders)), w)
      else case json request of
        Inl e \<Rightarrow> (Some (Inl e), w)
      | Inr b \<Rightarrow>
          if falsy (userId b) \<or> falsy (message b) then
            (Some (Inr (ResponseStatus (JsonError ''Missing userId or message'') 400 jsonHeaders)), w)
          else
            (let uid = string_value (userId b);
                 msg = string_value (message b)
             in case session_fetch uid (Request ''/history'') now w of
               (Inl e, w1) \<Rightarrow> (Some (Inl e), w1)
             | (Inr historyResponse, w1) \<Rightarrow>
                 (case response_json historyResponse of
                    Inl e \<Rightarrow> (Some (Inl e), w1)
                  | Inr history \<Rightarrow>
                      (case generateAIResponse_async ai msg (recentHistory history) of
                         None \<Rightarrow> (None, w1)
                       | Some reply \<Rightarrow>
                           (case session_fetch uid (RequestJson ''/add'' msg reply) now w1 of
                              (Inl e, w2) \<Rightarrow> (Some (Inl e), w2)
                            | (Inr _, w2) \<Rightarrow>
                                (Some (Inr (Response (JsonChat reply uid) jsonHeaders)), w2))))))"

subsection \<open>Runs of appends\<close>

text \<open>
  A run of \<^verbatim>\<open>/add\<close> requests against one object, each with its own clock reading, and
  the record each of them pushes.
\<close>

definition record_of :: "int \<times> string \<times> string \<Rightarrow> interaction" where
  "record_of op =
     (case op of (now, m, r) \<Rightarrow> \<lparr>timestamp = now, userMessage = m, aiResponse = r\<rparr>)"

fun appends :: "(int \<times> string \<times> string) list \<Rightarrow> storage \<Rightarrow> storage" where
  "appends [] st = st"
| "appends ((now, m, r) # ops) st =
     appends ops (snd (SessionManager_fetch (RequestJson ''/add'' m r) now st))"

section \<open>What one request to a session object does\<close>

lemma do_pathname_Request: "do_pathname (Request p) = p"
  by (simp add: Request_def)

lemma do_pathname_RequestJson: "do_pathname (RequestJson p m r) = p"
  by (simp add: RequestJson_def)

lemma add_fetch:
  "SessionManager_fetch (RequestJson ''/add'' m r) now st =
     (Inr (Response (Text ''OK'') []),
      Some ((if length (get_history_or_empty st) < 20 then get_history_or_empty st
             else tl (get_history_or_empty st))
            @ [\<lparr>timestamp = now, userMessage = m, aiResponse = r\<rparr>]))"
  by (cases "get_history_or_empty st")
     (simp_all add: SessionManager_fetch_def addInteraction_def RequestJson_def Let_def)

lemma history_fetch:
  "SessionManager_fetch (Request ''/history'') now st =
     (Inr (Response (JsonHistory (get_history_or_empty st))
             [(''Content-Type'', ''application/json'')]), st)"
  by (simp add: SessionManager_fetch_def getHistory_def Request_def)

lemma clear_fetch:
  "SessionManager_fetch (Request ''/clear'') now st =
     (Inr (Response (Text ''History cleared'') []), None)"
  by (simp add: SessionManager_fetch_def clearHistory_def Request_def)

lemma session_fetch_history:
  "session_fetch name (Request ''/history'') now w =
     (Inr (Response (JsonHistory (get_history_or_empty (objects w name)))
             [(''Content-Type'', ''application/json'')]),
      \<lparr>objects = objects w, fetches = fetches w @ [(name, ''/history'')]\<rparr>)"
  by (simp add: session_fetch_def history_fetch do_pathname_Request)

lemma session_fetch_add:
  "session_fetch name (RequestJson ''/add'' m r) now w =
     (Inr (Response (Text ''OK'') []),
      \<lparr>objects = (objects w)(name :=
           Some ((if length (get_history_or_empty (objects w name)) < 20
                  then get_history_or_empty (objects w name)
                  else tl (get_history_or_empty (objects w name)))
                 @ [\<lparr>timestamp = now, userMessage = m, aiResponse = r\<rparr>])),
        fetches = fetches w @ [(name, ''/add'')]\<rparr>)"
  by (simp add: session_fetch_def add_fetch do_pathname_RequestJson)

lemma session_fetch_clear:
  "session_fetch name (Request ''/clear'') now w =
     (Inr (Response (Text ''History cleared'') []),
      \<lparr>objects = (objects w)(name := None), fetches = fetches w @ [(name, ''/clear'')]\<rparr>)"
  by (simp add: session_fetch_def clear_fetch do_pathname_Request)

lemma response_json_history: "response_json (Response (JsonHistory h) hs) = Inr h"
  by (simp add: response_json_def Response_def)

section \<open>The bounded history\<close>

lemma appends_snoc:
  "appends (ops @ [(now, m, r)]) st =
     snd (SessionManager_fetch (RequestJson ''/add'' m r) now (appends ops st))"
  by (induction ops arbitrary: st) auto

lemma appends_from_empty:
  "get_history_or_empty (appends ops None) = drop (length ops - 20) (map record_of ops)"
proof (induction ops rule: rev_induct)
  case Nil
  show ?case by (simp add: get_history_or_empty_def)
next
  case (snoc op ops)
  obtain now m r where op: "op = (now, m, r)" by (cases op)
  show ?case
  proof (cases "length ops < 20")
    case True
    with snoc show ?thesis
      by (simp add: op appends_snoc add_fetch get_history_or_empty_def record_of_def)
  next
    case False
    then have "Suc (length ops) - 20 = Suc (length ops - 20)" by simp
    with False snoc show ?thesis
      by (simp add: op appends_snoc add_fetch get_history_or_empty_def
          record_of_def tl_drop drop_Suc)
  qed
qed

text \<open>
  Claim C1. Start from an object whose storage holds nothing and send it any sequence
  \<open>ops\<close> of \<^verbatim>\<open>/add\<close> requests. Afterwards the stored history has at most 20 records,
  and it is the list of the records pushed, in the order pushed, without all but its last
  20; \<^verbatim>\<open>/history\<close> answers with exactly that list. As \<open>ops\<close> is any sequence, this holds
  after every append of a run.
\<close>

theorem C1_fifo_eviction:
  "length (get_history_or_empty (appends ops None)) \<le> 20
   \<and> get_history_or_empty (appends ops None) = drop (length ops - 20) (map record_of ops)
   \<and> SessionManager_fetch (Request ''/history'') now (appends ops None) =
       (Inr (Response (JsonHistory (drop (length ops - 20) (map record_of ops)))
               [(''Content-Type'', ''application/json'')]),
        appends ops None)"
  by (simp add: history_fetch appends_from_empty)

section \<open>One chat turn\<close>

lemma handleChatRequest_turn:
  assumes "req_method request = ''POST''" and "json request = Inr b"
    and "userId b = Some uid" and "message b = Some msg" and "uid \<noteq> []" and "msg \<noteq> []"
  shows "handleChatRequest ai request now w =
     (Inr (Response (JsonChat (generateAIResponse ai msg (recentHistory (get_history_or_empty (objects w uid)))) uid) jsonHeaders),
      \<lparr>objects = (objects w)(uid := Some ((if length (get_history_or_empty (objects w uid)) < 20
                                          then get_history_or_empty (objects w uid)
                                          else tl (get_history_or_empty (objects w uid)))
             @ [\<lparr>timestamp = now, userMessage = msg,
                 aiResponse = generateAIResponse ai msg (recentHistory (get_history_or_empty (objects w uid)))\<rparr>])),
        fetches = fetches w @ [(uid, ''/history''), (uid, ''/add'')]\<rparr>)"
  using assms
  by (simp add: handleChatRequest_def falsy_def string_value_def session_fetch_history
      response_json_history session_fetch_add Let_def)

lemma slice_last: "slice (- 5) xs = rev (take (min (length xs) 5) (rev xs))"
proof -
  have "nat (max (int (length xs) + - 5) 0) = length xs - 5" by simp
  then have "slice (- 5) xs = drop (length xs - 5) xs"
    by (simp add: slice_def Let_def)
  also have "\<dots> = rev (take 5 (rev xs))"
    by (simp add: take_rev)
  finally show ?thesis by (simp add: min_def)
qed

text \<open>
  The first turn of a user: with nothing stored and an inference call that resolves to
  a completion, the completion is returned and the history holds this one exchange.
\<close>

lemma first_turn_example:
  "handleChatRequest (\<lambda>i. Resolves (Some ''A stack is a LIFO structure.''))
     \<lparr>req_method = ''POST'', pathname = ''/api/chat'', searchParams_userId = None,
       json = Inr \<lparr>userId = Some ''alice'', message = Some ''What is a stack?''\<rparr>\<rparr>
     1000 \<lparr>objects = (\<lambda>k. None), fetches = []\<rparr> =
   (Inr \<lparr>status = 200, headers = jsonHeaders,
         body = JsonChat ''A stack is a LIFO structure.'' ''alice''\<rparr>,
    \<lparr>objects = (\<lambda>k. None)(''alice'' :=
         Some [\<lparr>timestamp = 1000, userMessage = ''What is a stack?'',
                aiResponse = ''A stack is a LIFO structure.''\<rparr>]),
      fetches = [(''alice'', ''/history''), (''alice'', ''/add'')]\<rparr>)"
  using handleChatRequest_turn
    [of "\<lparr>req_method = ''POST'', pathname = ''/api/chat'', searchParams_userId = None,
          json = Inr \<lparr>userId = Some ''alice'', message = Some ''What is a stack?''\<rparr>\<rparr>"
        "\<lparr>userId = Some ''alice'', message = Some ''What is a stack?''\<rparr>"
        "''alice''" "''What is a stack?''"
        "\<lambda>i. Resolves (Some ''A stack is a LIFO structure.'')" 1000
        "\<lparr>objects = (\<lambda>k. None), fetches = []\<rparr>"]
  by (simp add: get_history_or_empty_def generateAIResponse_def falsy_def string_value_def
      Response_def)

text \<open>
  The requests the chat handler turns away before it reaches a session object: another
  method (405), a body that cannot be read (the error is thrown on, and \<^verbatim>\<open>fetch\<close> answers
  500), a missing or empty field (400). None of them touches the world.
\<close>

lemma handleChatRequest_rejected_no_effect:
  assumes "req_method request \<noteq> ''POST'' \<or> (\<exists>e. json request = Inl e)
           \<or> (\<exists>b. json request = Inr b \<and> (falsy (userId b) \<or> falsy (message b)))"
  shows "snd (handleChatRequest ai request now w) = w"
  using assms by (auto simp: handleChatRequest_def)

text \<open>
  With a collaborator that settles, the two models of the handler agree.
\<close>

lemma generateAIResponse_async_settled:
  "generateAIResponse_async (\<lambda>i. Some (ai i)) msg recent = Some (generateAIResponse ai msg recent)"
  by (simp add: generateAIResponse_async_def generateAIResponse_def split: ai_output.splits)

lemma handleChatRequest_async_settled:
  "handleChatRequest_async (\<lambda>i. Some (ai i)) request now w =
     (Some (fst (handleChatRequest ai request now w)), snd (handleChatRequest ai request now w))"
  by (simp add: handleChatRequest_async_def handleChatRequest_def generateAIResponse_async_settled
      Let_def split: sum.splits prod.splits)

lemma handleChatRequest_async_turn:
  assumes "req_method request = ''POST''" and "json request = Inr b"
    and "userId b = Some uid" and "message b = Some msg" and "uid \<noteq> []" and "msg \<noteq> []"
  shows "handleChatRequest_async ai request now w =
     (case generateAIResponse_async ai msg (recentHistory (get_history_or_empty (objects w uid))) of
        None \<Rightarrow> (None, \<lparr>objects = objects w, fetches = fetches w @ [(uid, ''/history'')]\<rparr>)
      | Some reply \<Rightarrow>
          (Some (Inr (Response (JsonChat reply uid) jsonHeaders)),
           \<lparr>objects = (objects w)(uid := Some ((if length (get_history_or_empty (objects w uid)) < 20
                                          then get_history_or_empty (objects w uid)
                                          else tl (get_history_or_empty (objects w uid)))
             @ [\<lparr>timestamp = now, userMessage = msg, aiResponse = reply\<rparr>])),
             fetches = fetches w @ [(uid, ''/history''), (uid, ''/add'')]\<rparr>))"
  using assms
  by (simp add: handleChatRequest_async_def falsy_def string_value_def session_fetch_history
      response_json_history session_fetch_add Let_def split: option.splits)

text \<open>
  Claim C2 says that a chat turn whose inference call fails, by an error or by a timeout,
  still returns the fallback text and records it. The code puts no bound on the call: when
  the call stays pending, the handler returns nothing, the history of the user is left
  as it was and the only request sent to the session object is the one for
  \<^verbatim>\<open>/history\<close>.
\<close>

theorem C2_pending_call_counterexample:
  "fst (handleChatRequest_async (\<lambda>i. None)
          \<lparr>req_method = ''POST'', pathname = ''/api/chat'', searchParams_userId = None,
            json = Inr \<lparr>userId = Some ''alice'', message = Some ''hi''\<rparr>\<rparr>
          1000 \<lparr>objects = (\<lambda>k. None), fetches = []\<rparr>) = None
   \<and> objects (snd (handleChatRequest_async (\<lambda>i. None)
          \<lparr>req_method = ''POST'', pathname = ''/api/chat'', searchParams_userId = None,
            json = Inr \<lparr>userId = Some ''alice'', message = Some ''hi''\<rparr>\<rparr>
          1000 \<lparr>objects = (\<lambda>k. None), fetches = []\<rparr>)) ''alice'' = None
   \<and> fetches (snd (handleChatRequest_async (\<lambda>i. None)
          \<lparr>req_method = ''POST'', pathname = ''/api/chat'', searchParams_userId = None,
            json = Inr \<lparr>userId = Some ''alice'', message = Some ''hi''\<rparr>\<rparr>
          1000 \<lparr>objects = (\<lambda>k. None), fetches = []\<rparr>)) = [(''alice'', ''/history'')]"
  by (simp add: handleChatRequest_async_def generateAIResponse_async_def falsy_def string_value_def
      session_fetch_history response_json_history)

text \<open>
  Claim C2, amended. A chat turn is a \<^verbatim>\<open>POST\<close> whose body carries a non-empty
  \<^verbatim>\<open>userId\<close> and a non-empty \<^verbatim>\<open>message\<close>. If the inference call of the turn throws, the
  handler still answers with status 200 and the fixed, non-empty text of its \<^verbatim>\<open>catch\<close>
  branch, and the user's object receives exactly one \<^verbatim>\<open>/add\<close>: its history is the old
  one, without its first record if it already held 20, followed by one new record whose
  \<^verbatim>\<open>aiResponse\<close> is that text. No other object changes.
\<close>

theorem C2_thrown_error_recorded:
  assumes "req_method request = ''POST''" and "json request = Inr b"
    and "userId b = Some uid" and "message b = Some msg" and "uid \<noteq> []" and "msg \<noteq> []"
    and "ai \<lparr>model = ''@cf/meta/llama-3.2-3b-instruct'',
             prompt = buildPrompt msg (recentHistory (get_history_or_empty (objects w uid))),
             max_tokens = 2048, temperature = 7 / 10\<rparr> = Some (Rejects e)"
  shows "handleChatRequest_async ai request now w =
     (Some (Inr \<lparr>status = 200, headers = jsonHeaders,
           body = JsonChat ''I encountered an error while processing your request. Please try again.'' uid\<rparr>),
      \<lparr>objects = (objects w)(uid := Some ((if length (get_history_or_empty (objects w uid)) < 20
                                          then get_history_or_empty (objects w uid)
                                          else tl (get_history_or_empty (objects w uid)))
             @ [\<lparr>timestamp = now, userMessage = msg,
                 aiResponse = ''I encountered an error while processing your request. Please try again.''\<rparr>])),
        fetches = fetches w @ [(uid, ''/history''), (uid, ''/add'')]\<rparr>)
   \<and> ''I encountered an error while processing your request. Please try again.'' \<noteq> []"
  using assms(7) handleChatRequest_async_turn [OF assms(1-6), of ai now w]
  by (simp add: generateAIResponse_async_def Response_def)

theorem C2_thrown_error_recorded_witness:
  "fst (handleChatRequest_async (\<lambda>i. Some (Rejects (Error ''inference failed'')))
          \<lparr>req_method = ''POST'', pathname = ''/api/chat'', searchParams_userId = None,
            json = Inr \<lparr>userId = Some ''alice'', message = Some ''hi''\<rparr>\<rparr>
          1000 \<lparr>objects = (\<lambda>k. None), fetches = []\<rparr>) =
     Some (Inr \<lparr>status = 200, headers = jsonHeaders,
          body = JsonChat ''I encountered an error while processing your request. Please try again.'' ''alice''\<rparr>)
   \<and> objects (snd (handleChatRequest_async (\<lambda>i. Some (Rejects (Error ''inference failed'')))
          \<lparr>req_method = ''POST'', pathname = ''/api/chat'', searchParams_userId = None,
            json = Inr \<lparr>userId = Some ''alice'', message = Some ''hi''\<rparr>\<rparr>
          1000 \<lparr>objects = (\<lambda>k. None), fetches = []\<rparr>)) ''alice'' =
     Some [\<lparr>timestamp = 1000, userMessage = ''hi'',
            aiResponse = ''I encountered an error while processing your request. Please try again.''\<rparr>]"
  using C2_thrown_error_recorded
    [of "\<lparr>req_method = ''POST'', pathname = ''/api/chat'', searchParams_userId = None,
          json = Inr \<lparr>userId = Some ''alice'', message = Some ''hi''\<rparr>\<rparr>"
        "\<lparr>userId = Some ''alice'', message = Some ''hi''\<rparr>" "''alice''" "''hi''"
        "\<lambda>i. Some (Rejects (Error ''inference failed''))" "\<lparr>objects = (\<lambda>k. None), fetches = []\<rparr>"
        "Error ''inference failed''" 1000]
  by (simp add: get_history_or_empty_def)

text \<open>
  Claim C3. A chat request is a \<^verbatim>\<open>POST\<close> with a JSON body. If its \<^verbatim>\<open>userId\<close> or its
  \<^verbatim>\<open>message\<close> is missing or the empty string, the handler answers 400 with
  \<^verbatim>\<open>{error: "Missing userId or message"}\<close> and leaves the world as it was: no storage
  changes and no session object is fetched. The worker's \<^verbatim>\<open>fetch\<close> passes that answer on
  unchanged.
\<close>

theorem C3_missing_field_rejected:
  assumes "req_method request = ''POST''" and "json request = Inr b"
    and "userId b = None \<or> userId b = Some [] \<or> message b = None \<or> message b = Some []"
  shows "handleChatRequest ai request now w =
           (Inr \<lparr>status = 400, headers = jsonHeaders, body = JsonError ''Missing userId or message''\<rparr>, w)
         \<and> (pathname request = ''/api/chat'' \<longrightarrow>
              fetch html ai request now w =
                (\<lparr>status = 400, headers = jsonHeaders, body = JsonError ''Missing userId or message''\<rparr>, w))"
proof -
  from assms(3) have f: "falsy (userId b) \<or> falsy (message b)"
    by (auto simp: falsy_def)
  with assms(1,2) have h: "handleChatRequest ai request now w =
      (Inr \<lparr>status = 400, headers = jsonHeaders, body = JsonError ''Missing userId or message''\<rparr>, w)"
    by (simp add: handleChatRequest_def ResponseStatus_def)
  from assms(1) have "req_method request \<noteq> ''OPTIONS''" by simp
  with h show ?thesis by (simp add: fetch_def)
qed


theorem C3_missing_field_rejected_witness:
  "handleChatRequest (\<lambda>i. Resolves (Some ''ok''))
     \<lparr>req_method = ''POST'', pathname = ''/api/chat'', searchParams_userId = None,
       json = Inr \<lparr>userId = None, message = Some ''What is a stack?''\<rparr>\<rparr>
     1000 \<lparr>objects = (\<lambda>k. None), fetches = []\<rparr> =
   (Inr \<lparr>status = 400, headers = jsonHeaders, body = JsonError ''Missing userId or message''\<rparr>,
    \<lparr>objects = (\<lambda>k. None), fetches = []\<rparr>)
   \<and> fetch ''<html>'' (\<lambda>i. Resolves (Some ''ok''))
     \<lparr>req_method = ''POST'', pathname = ''/api/chat'', searchParams_userId = None,
       json = Inr \<lparr>userId = None, message = Some ''What is a stack?''\<rparr>\<rparr>
     1000 \<lparr>objects = (\<lambda>k. None), fetches = []\<rparr> =
   (\<lparr>status = 400, headers = jsonHeaders, body = JsonError ''Missing userId or message''\<rparr>,
    \<lparr>objects = (\<lambda>k. None), fetches = []\<rparr>)"
  using C3_missing_field_rejected
    [of "\<lparr>req_method = ''POST'', pathname = ''/api/chat'', searchParams_userId = None,
          json = Inr \<lparr>userId = None, message = Some ''What is a stack?''\<rparr>\<rparr>"
        "\<lparr>userId = None, message = Some ''What is a stack?''\<rparr>"
        "\<lambda>i. Resolves (Some ''ok'')" 1000 "\<lparr>objects = (\<lambda>k. None), fetches = []\<rparr>" "''<html>''"]
  by simp

text \<open>
  Claim C10. In every chat turn the text returned is the text recorded as
  \<^verbatim>\<open>aiResponse\<close>, and it is never empty. When the inference call resolves with an
  absent or empty \<^verbatim>\<open>response\<close>, that text is the fixed apology of the \<^verbatim>\<open>||\<close> default.
\<close>

theorem C10_empty_completion_replaced:
  assumes "req_method request = ''POST''" and "json request = Inr b"
    and "userId b = Some uid" and "message b = Some msg" and "uid \<noteq> []" and "msg \<noteq> []"
  shows "\<exists>reply. reply \<noteq> []
     \<and> handleChatRequest ai request now w =
        (Inr \<lparr>status = 200, headers = jsonHeaders, body = JsonChat reply uid\<rparr>,
         \<lparr>objects = (objects w)(uid := Some ((if length (get_history_or_empty (objects w uid)) < 20
                                          then get_history_or_empty (objects w uid)
                                          else tl (get_history_or_empty (objects w uid)))
             @ [\<lparr>timestamp = now, userMessage = msg, aiResponse = reply\<rparr>])),
           fetches = fetches w @ [(uid, ''/history''), (uid, ''/add'')]\<rparr>)
     \<and> (\<forall>r. ai \<lparr>model = ''@cf/meta/llama-3.2-3b-instruct'',
                  prompt = buildPrompt msg (recentHistory (get_history_or_empty (objects w uid))),
                  max_tokens = 2048, temperature = 7 / 10\<rparr> = Resolves r
              \<and> (r = None \<or> r = Some [])
            \<longrightarrow> reply = ''I apologize, but I could not generate a response. Please try again.'')"
proof -
  let ?reply = "generateAIResponse ai msg (recentHistory (get_history_or_empty (objects w uid)))"
  have "?reply \<noteq> []"
    by (auto simp: generateAIResponse_def falsy_def string_value_def
        split: ai_output.splits option.splits)
  moreover have "\<forall>r. ai \<lparr>model = ''@cf/meta/llama-3.2-3b-instruct'',
                  prompt = buildPrompt msg (recentHistory (get_history_or_empty (objects w uid))),
                  max_tokens = 2048, temperature = 7 / 10\<rparr> = Resolves r
              \<and> (r = None \<or> r = Some [])
            \<longrightarrow> ?reply = ''I apologize, but I could not generate a response. Please try again.''"
    by (auto simp: generateAIResponse_def falsy_def)
  ultimately show ?thesis
    using handleChatRequest_turn [OF assms, of ai now w]
    by (intro exI [of _ ?reply]) (simp add: Response_def)
qed

theorem C10_empty_completion_replaced_witness:
  "fst (handleChatRequest (\<lambda>i. Resolves (Some []))
          \<lparr>req_method = ''POST'', pathname = ''/api/chat'', searchParams_userId = None,
            json = Inr \<lparr>userId = Some ''alice'', message = Some ''hi''\<rparr>\<rparr>
          1000 \<lparr>objects = (\<lambda>k. None), fetches = []\<rparr>) =
     Inr \<lparr>status = 200, headers = jsonHeaders,
          body = JsonChat ''I apologize, but I could not generate a response. Please try again.'' ''alice''\<rparr>
   \<and> objects (snd (handleChatRequest (\<lambda>i. Resolves (Some []))
          \<lparr>req_method = ''POST'', pathname = ''/api/chat'', searchParams_userId = None,
            json = Inr \<lparr>userId = Some ''alice'', message = Some ''hi''\<rparr>\<rparr>
          1000 \<lparr>objects = (\<lambda>k. None), fetches = []\<rparr>)) ''alice'' =
     Some [\<lparr>timestamp = 1000, userMessage = ''hi'',
            aiResponse = ''I apologize, but I could not generate a response. Please try again.''\<rparr>]"
  using C10_empty_completion_replaced
    [of "\<lparr>req_method = ''POST'', pathname = ''/api/chat'', searchParams_userId = None,
          json = Inr \<lparr>userId = Some ''alice'', message = Some ''hi''\<rparr>\<rparr>"
        "\<lparr>userId = Some ''alice'', message = Some ''hi''\<rparr>" "''alice''" "''hi''"
        "\<lambda>i. Resolves (Some [])" 1000 "\<lparr>objects = (\<lambda>k. None), fetches = []\<rparr>"]
  by (auto simp: get_history_or_empty_def)

lemma buildPrompt_not_empty: "buildPrompt msg history \<noteq> []"
  by (simp add: buildPrompt_def Let_def)

text \<open>
  Claim C7. For every history \<open>hist\<close> of length \<open>n\<close>, \<^verbatim>\<open>recentHistory\<close> is the list of
  its last \<open>min n 5\<close> records, oldest first, each mapped to its pair of
  \<^verbatim>\<open>user\<close> and \<^verbatim>\<open>assistant\<close> strings. In a chat turn the one call of the inference
  collaborator carries the prompt \<^verbatim>\<open>buildPrompt\<close> makes of the message and exactly that
  window of the user's stored history, and the reply is read off the outcome of that call.
  Fetching the history changes no storage, and after the turn the stored history is the
  old one (less its first record if it held 20) followed by the new record: building the
  window altered nothing.
\<close>

theorem C7_context_window:
  assumes "req_method request = ''POST''" and "json request = Inr b"
    and "userId b = Some uid" and "message b = Some msg" and "uid \<noteq> []" and "msg \<noteq> []"
  shows "recentHistory hist =
           map (\<lambda>h. \<lparr>user = userMessage h, assistant = aiResponse h\<rparr>)
             (rev (take (min (length hist) 5) (rev hist)))
   \<and> length (recentHistory hist) = min (length hist) 5
   \<and> handleChatRequest ai request now w =
       (let h = get_history_or_empty (objects w uid);
            window = map (\<lambda>x. \<lparr>user = userMessage x, assistant = aiResponse x\<rparr>)
                       (rev (take (min (length h) 5) (rev h)));
            reply = (case ai \<lparr>model = ''@cf/meta/llama-3.2-3b-instruct'',
                               prompt = buildPrompt msg window,
                               max_tokens = 2048, temperature = 7 / 10\<rparr> of
                       Rejects e \<Rightarrow>
                         ''I encountered an error while processing your request. Please try again.''
                     | Resolves r \<Rightarrow>
                         if falsy r
                         then ''I apologize, but I could not generate a response. Please try again.''
                         else string_value r)
        in (Inr \<lparr>status = 200, headers = jsonHeaders, body = JsonChat reply uid\<rparr>,
            \<lparr>objects = (objects w)(uid :=
                 Some ((if length h < 20 then h else tl h)
                       @ [\<lparr>timestamp = now, userMessage = msg, aiResponse = reply\<rparr>])),
              fetches = fetches w @ [(uid, ''/history''), (uid, ''/add'')]\<rparr>))
   \<and> session_fetch uid (Request ''/history'') now w =
       (Inr \<lparr>status = 200, headers = [(''Content-Type'', ''application/json'')],
             body = JsonHistory (get_history_or_empty (objects w uid))\<rparr>,
        \<lparr>objects = objects w, fetches = fetches w @ [(uid, ''/history'')]\<rparr>)"
proof -
  have a: "recentHistory h =
           map (\<lambda>h. \<lparr>user = userMessage h, assistant = aiResponse h\<rparr>)
             (rev (take (min (length h) 5) (rev h)))" for h
    by (simp only: recentHistory_def slice_last)
  have b: "length (recentHistory hist) = min (length hist) 5"
    by (simp add: a)
  show ?thesis
    using handleChatRequest_turn [OF assms, of ai now w] b
    by (simp add: a [symmetric] session_fetch_history generateAIResponse_def Response_def Let_def)
qed

theorem C7_context_window_witness:
  "recentHistory (map (\<lambda>c. \<lparr>timestamp = 0, userMessage = [c], aiResponse = [c, c]\<rparr>) ''abcdef'') =
     map (\<lambda>c. \<lparr>user = [c], assistant = [c, c]\<rparr>) ''bcdef''
   \<and> fst (handleChatRequest (\<lambda>i. Resolves (Some (prompt i)))
          \<lparr>req_method = ''POST'', pathname = ''/api/chat'', searchParams_userId = None,
            json = Inr \<lparr>userId = Some ''alice'', message = Some ''hi''\<rparr>\<rparr>
          1000
          \<lparr>objects = (\<lambda>k. None)(''alice'' :=
               Some (map (\<lambda>c. \<lparr>timestamp = 0, userMessage = [c], aiResponse = [c, c]\<rparr>) ''abcdef'')),
            fetches = []\<rparr>) =
     Inr \<lparr>status = 200, headers = jsonHeaders,
          body = JsonChat (buildPrompt ''hi'' (map (\<lambda>c. \<lparr>user = [c], assistant = [c, c]\<rparr>) ''bcdef''))
                   ''alice''\<rparr>
   \<and> objects (snd (handleChatRequest (\<lambda>i. Resolves (Some (prompt i)))
          \<lparr>req_method = ''POST'', pathname = ''/api/chat'', searchParams_userId = None,
            json = Inr \<lparr>userId = Some ''alice'', message = Some ''hi''\<rparr>\<rparr>
          1000
          \<lparr>objects = (\<lambda>k. None)(''alice'' :=
               Some (map (\<lambda>c. \<lparr>timestamp = 0, userMessage = [c], aiResponse = [c, c]\<rparr>) ''abcdef'')),
            fetches = []\<rparr>)) ''alice'' =
     Some (map (\<lambda>c. \<lparr>timestamp = 0, userMessage = [c], aiResponse = [c, c]\<rparr>) ''abcdef''
           @ [\<lparr>timestamp = 1000, userMessage = ''hi'',
               aiResponse = buildPrompt ''hi'' (map (\<lambda>c. \<lparr>user = [c], assistant = [c, c]\<rparr>) ''bcdef'')\<rparr>])"
  using C7_context_window
    [of "\<lparr>req_method = ''POST'', pathname = ''/api/chat'', searchParams_userId = None,
          json = Inr \<lparr>userId = Some ''alice'', message = Some ''hi''\<rparr>\<rparr>"
        "\<lparr>userId = Some ''alice'', message = Some ''hi''\<rparr>" "''alice''" "''hi''"
        "map (\<lambda>c. \<lparr>timestamp = 0, userMessage = [c], aiResponse = [c, c]\<rparr>) ''abcdef''"
        "\<lambda>i. Resolves (Some (prompt i))" 1000
        "\<lparr>objects = (\<lambda>k. None)(''alice'' :=
               Some (map (\<lambda>c. \<lparr>timestamp = 0, userMessage = [c], aiResponse = [c, c]\<rparr>) ''abcdef'')),
            fetches = []\<rparr>"]
    buildPrompt_not_empty [of "''hi''" "map (\<lambda>c. \<lparr>user = [c], assistant = [c, c]\<rparr>) ''bcdef''"]
  by (simp add: get_history_or_empty_def string_value_def falsy_def Let_def)

section \<open>The session object seen through its stub\<close>

text \<open>
  Claim C4. For every key and every prior world: after \<^verbatim>\<open>/add\<close> of A and then \<^verbatim>\<open>/add\<close>
  of B to the key's object, \<^verbatim>\<open>/history\<close> answers with a list that ends with A's record
  followed by B's record; so A comes before B.
\<close>

theorem C4_append_order:
  "\<exists>pre.
     fst (session_fetch key (Request ''/history'') t
            (snd (session_fetch key (RequestJson ''/add'' mB rB) tB
                    (snd (session_fetch key (RequestJson ''/add'' mA rA) tA w))))) =
     Inr (Response
           (JsonHistory (pre @ [\<lparr>timestamp = tA, userMessage = mA, aiResponse = rA\<rparr>,
                                \<lparr>timestamp = tB, userMessage = mB, aiResponse = rB\<rparr>]))
           [(''Content-Type'', ''application/json'')])"
proof -
  let ?h = "get_history_or_empty (objects w key)"
  let ?A = "\<lparr>timestamp = tA, userMessage = mA, aiResponse = rA\<rparr>"
  let ?B = "\<lparr>timestamp = tB, userMessage = mB, aiResponse = rB\<rparr>"
  let ?k = "if length ?h < 20 then ?h else tl ?h"
  let ?h1 = "?k @ [?A]"
  have res: "fst (session_fetch key (Request ''/history'') t
            (snd (session_fetch key (RequestJson ''/add'' mB rB) tB
                    (snd (session_fetch key (RequestJson ''/add'' mA rA) tA w))))) =
     Inr (Response (JsonHistory ((if length ?h1 < 20 then ?h1 else tl ?h1) @ [?B]))
           [(''Content-Type'', ''application/json'')])"
    by (simp add: session_fetch_add session_fetch_history get_history_or_empty_def)
  have "\<exists>pre. (if length ?h1 < 20 then ?h1 else tl ?h1) = pre @ [?A]"
  proof (cases "length ?h1 < 20")
    case True
    then show ?thesis by simp
  next
    case False
    then have "?k \<noteq> []" by auto
    then have "tl ?h1 = tl ?k @ [?A]" by simp
    with False show ?thesis by simp
  qed
  then obtain pre where "(if length ?h1 < 20 then ?h1 else tl ?h1) = pre @ [?A]" ..
  with res show ?thesis by (intro exI [of _ pre]) simp
qed

text \<open>
  Claim C5 says that an append onto a history of any length, also one longer than 20,
  evicts from the front until exactly 20 records are left. \<^verbatim>\<open>addInteraction\<close> calls
  \<^verbatim>\<open>shift()\<close> once, under an \<^verbatim>\<open>if\<close>: on a stored history of 21 records the result has
  21 records, not 20.
\<close>

theorem C5_single_eviction_counterexample:
  "length (get_history_or_empty (snd (SessionManager_fetch (RequestJson ''/add'' ''q'' ''a'') 1000
      (Some (replicate 21 \<lparr>timestamp = 0, userMessage = ''old'', aiResponse = ''old''\<rparr>))))) = 21
   \<and> length (get_history_or_empty (snd (SessionManager_fetch (RequestJson ''/add'' ''q'' ''a'') 1000
      (Some (replicate 21 \<lparr>timestamp = 0, userMessage = ''old'', aiResponse = ''old''\<rparr>))))) \<noteq> 20"
  by (simp add: add_fetch get_history_or_empty_def)

text \<open>
  Claim C5, amended. For every stored history (or none) and every record, \<^verbatim>\<open>/add\<close>
  puts the record at the end and, if the length then exceeds 20, removes exactly one
  record from the front. When the history held at most 20 records before, as every history
  built by \<^verbatim>\<open>/add\<close> alone does, it holds \<open>min 20 (n + 1)\<close> afterwards: exactly 20
  whenever a record was evicted.
\<close>

theorem C5_append_evicts_one:
  "get_history_or_empty (snd (SessionManager_fetch (RequestJson ''/add'' m r) now st)) =
     drop (if length (get_history_or_empty st) + 1 > 20 then 1 else 0) (get_history_or_empty st)
       @ [\<lparr>timestamp = now, userMessage = m, aiResponse = r\<rparr>]
   \<and> (length (get_history_or_empty st) \<le> 20 \<longrightarrow>
        length (get_history_or_empty (snd (SessionManager_fetch (RequestJson ''/add'' m r) now st))) =
          min 20 (length (get_history_or_empty st) + 1))"
  by (auto simp: add_fetch get_history_or_empty_def drop_Suc split: option.splits)

theorem C5_append_evicts_one_witness:
  "length (get_history_or_empty (snd (SessionManager_fetch (RequestJson ''/add'' ''q'' ''a'') 1000
      (Some (replicate 20 \<lparr>timestamp = 0, userMessage = ''old'', aiResponse = ''old''\<rparr>))))) = 20
   \<and> get_history_or_empty (snd (SessionManager_fetch (RequestJson ''/add'' ''q'' ''a'') 1000
      (Some (replicate 20 \<lparr>timestamp = 0, userMessage = ''old'', aiResponse = ''old''\<rparr>)))) =
     replicate 19 \<lparr>timestamp = 0, userMessage = ''old'', aiResponse = ''old''\<rparr>
       @ [\<lparr>timestamp = 1000, userMessage = ''q'', aiResponse = ''a''\<rparr>]"
  using C5_append_evicts_one [of "''q''" "''a''" 1000
      "Some (replicate 20 \<lparr>timestamp = 0, userMessage = ''old'', aiResponse = ''old''\<rparr>)"]
  by (simp add: get_history_or_empty_def)

text \<open>
  Claim C6. For every key and every prior world, \<^verbatim>\<open>/clear\<close> followed by \<^verbatim>\<open>/history\<close>
  answers with the empty list; and \<^verbatim>\<open>/history\<close> on a key whose object has nothing
  stored answers with the empty list too, with status 200, and stores nothing.
\<close>

theorem C6_clear_then_load:
  "fst (session_fetch key (Request ''/history'') t2
          (snd (session_fetch key (Request ''/clear'') t1 w))) =
     Inr \<lparr>status = 200, headers = [(''Content-Type'', ''application/json'')], body = JsonHistory []\<rparr>
   \<and> (objects w key = None \<longrightarrow>
        session_fetch key (Request ''/history'') t w =
          (Inr \<lparr>status = 200, headers = [(''Content-Type'', ''application/json'')], body = JsonHistory []\<rparr>,
           \<lparr>objects = objects w, fetches = fetches w @ [(key, ''/history'')]\<rparr>))"
  by (simp add: session_fetch_clear session_fetch_history get_history_or_empty_def Response_def)

theorem C6_clear_then_load_witness:
  "session_fetch ''bob'' (Request ''/history'') 1000 \<lparr>objects = (\<lambda>k. None), fetches = []\<rparr> =
     (Inr \<lparr>status = 200, headers = [(''Content-Type'', ''application/json'')], body = JsonHistory []\<rparr>,
      \<lparr>objects = (\<lambda>k. None), fetches = [(''bob'', ''/history'')]\<rparr>)"
  using C6_clear_then_load [of "''bob''" 0 0 "\<lparr>objects = (\<lambda>k. None), fetches = []\<rparr>" 1000]
  by simp

section \<open>The prompt\<close>

lemma foldl_append_concat: "foldl (\<lambda>acc h. acc @ f h) acc xs = acc @ concat (map f xs)"
  by (induction xs arbitrary: acc) simp_all

text \<open>
  Claim C8. \<^verbatim>\<open>buildPrompt\<close> reads nothing but its two arguments, so it is a function of
  them: equal inputs give the same string. For every message and every context window
  that string is the fixed preamble; then, exactly when the window is not empty, a header
  line, one \<^verbatim>\<open>Student:\<close> line and one \<^verbatim>\<open>Assistant:\<close> line per exchange, in order, and
  an empty line; then the current question and the instruction to give a helpful,
  educational response.
\<close>

theorem C8_prompt_structure:
  "buildPrompt msg history =
     ''You are an AI study assistant specializing in programming and computer science education.\<newline>You help students understand complex concepts through clear explanations and examples and you can use technical terminology appropriately.\<newline>''
     @ (if history = [] then []
        else ''Previous conversation context:\<newline>''
             @ concat (map (\<lambda>h. ''Student: '' @ user h @ ''\<newline>'' @ ''Assistant: '' @ assistant h @ ''\<newline>'') history)
             @ ''\<newline>'')
     @ ''Current question: '' @ msg @ ''\<newline>\<newline>Provide a helpful, educational response:''"
proof (cases "history = []")
  case True
  then show ?thesis by (simp add: buildPrompt_def)
next
  case False
  have "foldl (\<lambda>prompt h. prompt @ ''Student: '' @ user h @ ''\<newline>Assistant: '' @ assistant h @ ''\<newline>'') p history =
        p @ concat (map (\<lambda>h. ''Student: '' @ user h @ ''\<newline>Assistant: '' @ assistant h @ ''\<newline>'') history)" for p
    by (rule foldl_append_concat)
  with False show ?thesis by (simp add: buildPrompt_def Let_def)
qed

section \<open>Routing\<close>

text \<open>
  Claim C9 says that a request whose path is none of the API routes is answered with
  status 404. The worker has no such branch: after the four route tests it serves the
  frontend page. A \<^verbatim>\<open>GET\<close> of \<^verbatim>\<open>/nope\<close> is answered with status 200.
\<close>

theorem C9_unknown_path_counterexample:
  "status (fst (fetch ''<!DOCTYPE html>'' (\<lambda>i. Resolves None)
      \<lparr>req_method = ''GET'', pathname = ''/nope'', searchParams_userId = None, json = Inl (Error [])\<rparr>
      1000 \<lparr>objects = (\<lambda>k. None), fetches = []\<rparr>)) = 200
   \<and> status (fst (fetch ''<!DOCTYPE html>'' (\<lambda>i. Resolves None)
      \<lparr>req_method = ''GET'', pathname = ''/nope'', searchParams_userId = None, json = Inl (Error [])\<rparr>
      1000 \<lparr>objects = (\<lambda>k. None), fetches = []\<rparr>)) \<noteq> 404"
  by (simp add: fetch_def Response_def)

text \<open>
  Claim C9, amended. For every request whose path is none of \<^verbatim>\<open>/api/chat\<close>,
  \<^verbatim>\<open>/api/session\<close>, \<^verbatim>\<open>/api/session/clear\<close> and \<^verbatim>\<open>/api/voice\<close>, the worker answers with
  status 200: the frontend page as \<^verbatim>\<open>text/html\<close>, or for an \<^verbatim>\<open>OPTIONS\<close> request an
  empty body with the CORS headers. The world is left as it was: no storage changes and no
  session object is fetched.
\<close>

theorem C9_unknown_path_serves_frontend:
  assumes "pathname request \<noteq> ''/api/chat''" and "pathname request \<noteq> ''/api/session''"
    and "pathname request \<noteq> ''/api/session/clear''" and "pathname request \<noteq> ''/api/voice''"
  shows "fetch html ai request now w =
     (if req_method request = ''OPTIONS''
      then \<lparr>status = 200, headers = corsHeaders, body = NoBody\<rparr>
      else \<lparr>status = 200, headers = (''Content-Type'', ''text/html'') # corsHeaders, body = Html html\<rparr>,
      w)"
  using assms by (simp add: fetch_def Response_def)

theorem C9_unknown_path_serves_frontend_witness:
  "fetch ''<!DOCTYPE html>'' (\<lambda>i. Resolves None)
      \<lparr>req_method = ''GET'', pathname = ''/favicon.ico'', searchParams_userId = None, json = Inl (Error [])\<rparr>
      1000 \<lparr>objects = (\<lambda>k. None), fetches = []\<rparr> =
     (\<lparr>status = 200, headers = (''Content-Type'', ''text/html'') # corsHeaders, body = Html ''<!DOCTYPE html>''\<rparr>,
      \<lparr>objects = (\<lambda>k. None), fetches = []\<rparr>)"
  using C9_unknown_path_serves_frontend
    [of "\<lparr>req_method = ''GET'', pathname = ''/favicon.ico'', searchParams_userId = None, json = Inl (Error [])\<rparr>"
        "''<!DOCTYPE html>''" "\<lambda>i. Resolves None" 1000 "\<lparr>objects = (\<lambda>k. None), fetches = []\<rparr>"]
  by simp

end
